theory Spec2Isabelle
  imports Main
begin

section \<open>Data model of the NFC token protocol\<close>

text \<open>
  The protocol lives in \<^verbatim>\<open>app/api/nfc.py\<close>. It works on three tables of the external
  store, reached through \<^verbatim>\<open>SupabaseCRUD\<close> (\<^verbatim>\<open>app/core/crud.py\<close>): \<^verbatim>\<open>nfc_tokens\<close>,
  \<^verbatim>\<open>profiles\<close> and \<^verbatim>\<open>connections\<close>. A table is the list of its rows, in the order
  in which the store returns them. Only the columns that the protocol reads or writes
  are kept; field names carry the table as a prefix, since the tables share column
  names. A point in time is the number of microseconds since the epoch, the resolution
  of Python's \<^verbatim>\<open>datetime\<close>. The store is taken to answer every call, so the handlers'
  \<^verbatim>\<open>except Exception\<close> branches are not reached through a failure of the store. The
  one exception that the handlers' own arithmetic raises is kept: the \<^verbatim>\<open>OverflowError\<close>
  of the expiry computation in \<^verbatim>\<open>generate_nfc_token\<close>, which that handler wraps as
  \<open>TOKEN_GENERATION_FAILED\<close>. The codes \<open>TOKEN_VALIDATION_FAILED\<close> and
  \<open>CONNECTION_FAILED\<close> are part of the error type and no handler of the model returns
  them.
\<close>

type_synonym timestamp = int

datatype profile_type = Family | Friends | Work | Acquaintances

text \<open>The string values of \<^verbatim>\<open>Literal["family", "friends", "work", "acquaintances"]\<close>.\<close>

fun profile_type_value :: "profile_type \<Rightarrow> string" where
  "profile_type_value Family = ''family''"
| "profile_type_value Friends = ''friends''"
| "profile_type_value Work = ''work''"
| "profile_type_value Acquaintances = ''acquaintances''"

record nfc_token_row =
  tok_id :: string
  tok_user_id :: string
  tok_token :: string
  tok_profile_type :: string
  tok_is_active :: bool
  tok_expires_at :: timestamp

record profile_row =
  prof_id :: string
  prof_user_id :: string
  prof_name :: string
  prof_type :: string

record connection_row =
  conn_id :: string
  conn_user_id :: string
  conn_connected_user_id :: string
  conn_connection_type :: string

record database =
  nfc_tokens :: "nfc_token_row list"
  profiles :: "profile_row list"
  connections :: "connection_row list"

record settings =
  NFC_TOKEN_EXPIRE_MINUTES :: int

datatype error_code =
    PROFILE_NOT_FOUND
  | TOKEN_GENERATION_FAILED
  | INVALID_TOKEN
  | EXPIRED_TOKEN
  | TOKEN_VALIDATION_FAILED
  | SELF_CONNECTION
  | CONNECTION_EXISTS
  | CONNECTION_FAILED

record NFCTokenResponse =
  token :: string
  profile_type :: string
  expires_at :: timestamp

record validate_response =
  vr_profile :: profile_row
  vr_user_id :: string

record connect_response =
  cr_message :: string
  cr_connection :: connection_row
  cr_profile :: "profile_row option"

section \<open>The repository: \<^verbatim>\<open>SupabaseCRUD\<close>\<close>

text \<open>
  \<^verbatim>\<open>read(query)\<close> selects the rows that match every column of the query;
  \<^verbatim>\<open>create(data)\<close> inserts one row; \<^verbatim>\<open>update("id", v, {"is_active": False})\<close> rewrites
  the column in every row whose \<^verbatim>\<open>id\<close> equals \<open>v\<close>.
\<close>

definition crud_read :: "('r \<Rightarrow> bool) \<Rightarrow> 'r list \<Rightarrow> 'r list" where
  "crud_read query table = filter query table"

definition crud_create :: "'r \<Rightarrow> 'r list \<Rightarrow> 'r list" where
  "crud_create data table = table @ [data]"

definition nfc_update_is_active :: "string \<Rightarrow> bool \<Rightarrow> nfc_token_row list \<Rightarrow> nfc_token_row list" where
  "nfc_update_is_active id_value v table =
     map (\<lambda>r. if tok_id r = id_value then r\<lparr>tok_is_active := v\<rparr> else r) table"

section \<open>Token generation\<close>

text \<open>
  \<^verbatim>\<open>string.ascii_letters + string.digits\<close>. \<^verbatim>\<open>secrets.choice(seq)\<close> returns
  \<^verbatim>\<open>seq[randbelow(len(seq))]\<close>; the generator's outcome is a raw natural number per
  draw, reduced below the length of the sequence. The only sequence it is applied to is
  the alphabet, which is not empty, so the \<^verbatim>\<open>IndexError\<close> of an empty sequence does not
  arise.
\<close>

definition alphabet :: string where
  "alphabet = ''abcdefghijklmnopqrstuvwxyzABCDEFGHIJKLMNOPQRSTUVWXYZ0123456789''"

definition choice :: "nat \<Rightarrow> 'a list \<Rightarrow> 'a" where
  "choice raw seq = seq ! (raw mod length seq)"

definition generate_token :: "nat \<Rightarrow> (nat \<Rightarrow> nat) \<Rightarrow> string" where
  "generate_token len draws = map (\<lambda>i. choice (draws i) alphabet) [0..<len]"

text \<open>
  \<^verbatim>\<open>timedelta(minutes=m)\<close> as a number of microseconds. Python normalises the duration to
  days, seconds and microseconds and raises \<^verbatim>\<open>OverflowError\<close> when the days exceed
  999999999 in magnitude; \<open>None\<close> stands for that exception.
\<close>

definition timedelta_minutes :: "int \<Rightarrow> int option" where
  "timedelta_minutes m =
     (let days = (m * 60) div 86400
      in if - 999999999 \<le> days \<and> days \<le> 999999999 then Some (m * 60000000) else None)"

text \<open>
  The range of \<^verbatim>\<open>datetime\<close>, in microseconds since the epoch, read in UTC:
  \<^verbatim>\<open>0001-01-01T00:00:00\<close> to \<^verbatim>\<open>9999-12-31T23:59:59.999999\<close>. Adding a duration to a
  \<^verbatim>\<open>datetime\<close> raises \<^verbatim>\<open>OverflowError\<close> when the sum leaves that range.
\<close>

definition datetime_min :: timestamp where
  "datetime_min = - 62135596800000000"

definition datetime_max :: timestamp where
  "datetime_max = 253402300799999999"

definition datetime_add :: "timestamp \<Rightarrow> int \<Rightarrow> timestamp option" where
  "datetime_add d delta =
     (let r = d + delta in if datetime_min \<le> r \<and> r \<le> datetime_max then Some r else None)"

text \<open>
  The expression \<^verbatim>\<open>datetime.now(timezone.utc) + timedelta(minutes=settings.NFC_TOKEN_EXPIRE_MINUTES)\<close>
  of \<^verbatim>\<open>generate_nfc_token\<close>, at the current time \<open>now\<close>.
\<close>

definition compute_expires_at :: "settings \<Rightarrow> timestamp \<Rightarrow> timestamp option" where
  "compute_expires_at cfg now =
     (case timedelta_minutes (NFC_TOKEN_EXPIRE_MINUTES cfg) of
        None \<Rightarrow> None
      | Some delta \<Rightarrow> datetime_add now delta)"

section \<open>The three handlers\<close>

text \<open>The loop of \<^verbatim>\<open>generate_nfc_token\<close> over the tokens it has just read.\<close>

fun invalidate_existing :: "nfc_token_row list \<Rightarrow> nfc_token_row list \<Rightarrow> nfc_token_row list" where
  "invalidate_existing [] table = table"
| "invalidate_existing (existing_token # rest) table =
     invalidate_existing rest (nfc_update_is_active (tok_id existing_token) False table)"

text \<open>
  Every handler takes the database and the current time and returns its answer with the
  database it leaves. \<open>new_id\<close> is the identifier that the store gives the inserted row.
  In \<^verbatim>\<open>generate_nfc_token\<close> the expiry time is computed after the profile check and before
  any write; when that computation overflows, the handler's \<^verbatim>\<open>except Exception\<close> branch
  answers \<open>TOKEN_GENERATION_FAILED\<close>.
\<close>

definition generate_nfc_token ::
  "settings \<Rightarrow> database \<Rightarrow> timestamp \<Rightarrow> (nat \<Rightarrow> nat) \<Rightarrow> string \<Rightarrow> string \<Rightarrow> profile_type
     \<Rightarrow> (error_code + NFCTokenResponse) \<times> database" where
  "generate_nfc_token cfg db now draws new_id user_id token_data =
     (let found = crud_read (\<lambda>p. prof_user_id p = user_id
                                \<and> prof_type p = profile_type_value token_data) (profiles db)
      in if found = [] then (Inl PROFILE_NOT_FOUND, db)
         else
           (case compute_expires_at cfg now of
              None \<Rightarrow> (Inl TOKEN_GENERATION_FAILED, db)
            | Some expires \<Rightarrow>
                let tk = generate_token 32 draws;
                    existing_tokens = crud_read (\<lambda>t. tok_user_id t = user_id
                                        \<and> tok_profile_type t = profile_type_value token_data
                                        \<and> tok_is_active t = True) (nfc_tokens db);
                    table = invalidate_existing existing_tokens (nfc_tokens db);
                    token_data_dict = \<lparr>tok_id = new_id, tok_user_id = user_id, tok_token = tk,
                                       tok_profile_type = profile_type_value token_data,
                                       tok_is_active = True, tok_expires_at = expires\<rparr>
                in (Inr \<lparr>token = tk, profile_type = tok_profile_type token_data_dict,
                          expires_at = expires\<rparr>,
                    db\<lparr>nfc_tokens := crud_create token_data_dict table\<rparr>)))"

definition validate_nfc_token ::
  "database \<Rightarrow> timestamp \<Rightarrow> string \<Rightarrow> (error_code + validate_response) \<times> database" where
  "validate_nfc_token db now tk =
     (case crud_read (\<lambda>t. tok_token t = tk \<and> tok_is_active t = True) (nfc_tokens db) of
        [] \<Rightarrow> (Inl INVALID_TOKEN, db)
      | token_data # _ \<Rightarrow>
          if tok_expires_at token_data < now
          then (Inl EXPIRED_TOKEN,
                db\<lparr>nfc_tokens := nfc_update_is_active (tok_id token_data) False (nfc_tokens db)\<rparr>)
          else
            (case crud_read (\<lambda>p. prof_user_id p = tok_user_id token_data
                                  \<and> prof_type p = tok_profile_type token_data) (profiles db) of
               [] \<Rightarrow> (Inl PROFILE_NOT_FOUND, db)
             | p # _ \<Rightarrow> (Inr \<lparr>vr_profile = p, vr_user_id = tok_user_id token_data\<rparr>, db)))"

definition connect_via_nfc ::
  "database \<Rightarrow> timestamp \<Rightarrow> string \<Rightarrow> string \<Rightarrow> string
     \<Rightarrow> (error_code + connect_response) \<times> database" where
  "connect_via_nfc db now new_id user_id tk =
     (case crud_read (\<lambda>t. tok_token t = tk \<and> tok_is_active t = True) (nfc_tokens db) of
        [] \<Rightarrow> (Inl INVALID_TOKEN, db)
      | token_data # _ \<Rightarrow>
          let target_user_id = tok_user_id token_data in
          if user_id = target_user_id then (Inl SELF_CONNECTION, db)
          else if tok_expires_at token_data < now
          then (Inl EXPIRED_TOKEN,
                db\<lparr>nfc_tokens := nfc_update_is_active (tok_id token_data) False (nfc_tokens db)\<rparr>)
          else if crud_read (\<lambda>c. conn_user_id c = user_id
                                  \<and> conn_connected_user_id c = target_user_id) (connections db) \<noteq> []
          then (Inl CONNECTION_EXISTS, db)
          else
            let new_connection = \<lparr>conn_id = new_id, conn_user_id = user_id,
                                    conn_connected_user_id = target_user_id,
                                    conn_connection_type = tok_profile_type token_data\<rparr>;
                db1 = db\<lparr>connections := crud_create new_connection (connections db)\<rparr>;
                db2 = db1\<lparr>nfc_tokens := nfc_update_is_active (tok_id token_data) False (nfc_tokens db1)\<rparr>;
                found = crud_read (\<lambda>p. prof_user_id p = target_user_id
                                        \<and> prof_type p = tok_profile_type token_data) (profiles db2)
            in (Inr \<lparr>cr_message = ''Connection created successfully'',
                      cr_connection = new_connection,
                      cr_profile = (case found of [] \<Rightarrow> None | p # _ \<Rightarrow> Some p)\<rparr>,
                db2))"

section \<open>Notions used by the properties\<close>

definition is_ascii_letter :: "char \<Rightarrow> bool" where
  "is_ascii_letter c =
     (let n = (of_char c :: nat) in (65 \<le> n \<and> n \<le> 90) \<or> (97 \<le> n \<and> n \<le> 122))"

definition is_ascii_digit :: "char \<Rightarrow> bool" where
  "is_ascii_digit c = (let n = (of_char c :: nat) in 48 \<le> n \<and> n \<le> 57)"

text \<open>The active rows that a token value names, in the order the handlers read them.\<close>

definition active_tokens_with :: "string \<Rightarrow> database \<Rightarrow> nfc_token_row list" where
  "active_tokens_with tk db = filter (\<lambda>t. tok_token t = tk \<and> tok_is_active t) (nfc_tokens db)"

text \<open>The active rows of an \<open>(owner_id, profile_type)\<close> pair.\<close>

definition active_tokens_of :: "string \<Rightarrow> string \<Rightarrow> database \<Rightarrow> nfc_token_row list" where
  "active_tokens_of owner pt db =
     filter (\<lambda>t. tok_user_id t = owner \<and> tok_profile_type t = pt \<and> tok_is_active t) (nfc_tokens db)"

definition profile_exists :: "database \<Rightarrow> string \<Rightarrow> string \<Rightarrow> bool" where
  "profile_exists db owner pt =
     (\<exists>p \<in> set (profiles db). prof_user_id p = owner \<and> prof_type p = pt)"

definition connected :: "database \<Rightarrow> string \<Rightarrow> string \<Rightarrow> bool" where
  "connected db a b =
     (\<exists>c \<in> set (connections db). conn_user_id c = a \<and> conn_connected_user_id c = b)"

text \<open>
  A token row \<open>t\<close> has been deactivated in \<open>db'\<close>: the row is there with
  \<open>is_active\<close> false, and no row with its identifier is active.
\<close>

definition deactivated :: "nfc_token_row \<Rightarrow> database \<Rightarrow> bool" where
  "deactivated t db' =
     (t\<lparr>tok_is_active := False\<rparr> \<in> set (nfc_tokens db')
      \<and> (\<forall>r \<in> set (nfc_tokens db'). tok_id r = tok_id t \<longrightarrow> \<not> tok_is_active r))"

text \<open>
  Sequential calls of \<^verbatim>\<open>generate_nfc_token\<close> by one user for one profile type; a call
  is the time at which it runs, the outcome of the random generator and the identifier
  that the store assigns.
\<close>

fun issue_calls ::
  "settings \<Rightarrow> database \<Rightarrow> string \<Rightarrow> profile_type
     \<Rightarrow> (timestamp \<times> (nat \<Rightarrow> nat) \<times> string) list \<Rightarrow> database" where
  "issue_calls cfg db user_id pt [] = db"
| "issue_calls cfg db user_id pt ((now, draws, new_id) # calls) =
     issue_calls cfg (snd (generate_nfc_token cfg db now draws new_id user_id pt)) user_id pt calls"

section \<open>A concrete scenario\<close>

text \<open>
  User \<open>U1\<close> has a family profile and one active token \<open>T1\<close> for it, which expires
  at time 3600; nobody is connected to anybody.
\<close>

definition scenario_token :: nfc_token_row where
  "scenario_token = \<lparr>tok_id = ''t1'', tok_user_id = ''U1'', tok_token = ''T1'',
                      tok_profile_type = ''family'', tok_is_active = True, tok_expires_at = 3600\<rparr>"

definition scenario_profile :: profile_row where
  "scenario_profile = \<lparr>prof_id = ''p1'', prof_user_id = ''U1'', prof_name = ''Ann'',
                        prof_type = ''family''\<rparr>"

definition scenario_db :: database where
  "scenario_db = \<lparr>nfc_tokens = [scenario_token], profiles = [scenario_profile], connections = []\<rparr>"

section \<open>Token format\<close>

lemma alphabet_length: "length alphabet = 62"
  by (simp add: alphabet_def)

lemma alphabet_chars: "\<forall>c \<in> set alphabet. is_ascii_letter c \<or> is_ascii_digit c"
  by (simp add: alphabet_def is_ascii_letter_def is_ascii_digit_def)

lemma choice_alphabet: "choice raw alphabet \<in> set alphabet"
  by (simp add: choice_def alphabet_length)

lemma generate_token_length: "length (generate_token len draws) = len"
  by (simp add: generate_token_def)

lemma generate_token_chars:
  "c \<in> set (generate_token len draws) \<Longrightarrow> is_ascii_letter c \<or> is_ascii_digit c"
  using alphabet_chars choice_alphabet by (auto simp: generate_token_def)

lemma generate_nfc_token_Inr:
  assumes "generate_nfc_token cfg db now draws new_id user_id token_data = (Inr resp, db')"
  shows "token resp = generate_token 32 draws"
  using assms by (auto simp: generate_nfc_token_def Let_def split: if_splits option.splits)

lemma alphabet_distinct: "distinct alphabet"
  by (simp add: alphabet_def)

section \<open>The branches of the handlers\<close>

lemma read_active_tokens_with:
  "crud_read (\<lambda>t. tok_token t = tk \<and> tok_is_active t) (nfc_tokens db) = active_tokens_with tk db"
  by (simp add: crud_read_def active_tokens_with_def)

lemma read_profiles_empty:
  "(crud_read (\<lambda>p. prof_user_id p = u \<and> prof_type p = pt) (profiles db) = []) = (\<not> profile_exists db u pt)"
  by (auto simp: crud_read_def profile_exists_def filter_empty_conv)

lemma read_connections_empty:
  "(crud_read (\<lambda>c. conn_user_id c = a \<and> conn_connected_user_id c = b) (connections db) = [])
     = (\<not> connected db a b)"
  by (auto simp: crud_read_def connected_def filter_empty_conv)

lemma first_active_row:
  assumes "active_tokens_with tk db = t # rest"
  shows "t \<in> set (nfc_tokens db)" and "tok_token t = tk" and "tok_is_active t"
proof -
  have "t \<in> set (filter (\<lambda>r. tok_token r = tk \<and> tok_is_active r) (nfc_tokens db))"
    using assms by (simp add: active_tokens_with_def)
  then show "t \<in> set (nfc_tokens db)" and "tok_token t = tk" and "tok_is_active t"
    by simp_all
qed

lemma update_deactivates:
  assumes "t \<in> set table"
  shows "deactivated t (db\<lparr>nfc_tokens := nfc_update_is_active (tok_id t) False table\<rparr>)"
  using assms by (auto simp: deactivated_def nfc_update_is_active_def image_iff intro!: bexI [of _ t])

lemma lookup_after_update:
  assumes "active_tokens_with tk db = [t]"
  shows "active_tokens_with tk (db\<lparr>nfc_tokens := nfc_update_is_active (tok_id t) False (nfc_tokens db)\<rparr>) = []"
proof -
  have only: "r = t" if "r \<in> set (nfc_tokens db)" "tok_token r = tk" "tok_is_active r" for r
  proof -
    from that have "r \<in> set (active_tokens_with tk db)"
      by (simp add: active_tokens_with_def)
    with assms show ?thesis by simp
  qed
  show ?thesis
    using only by (auto simp: active_tokens_with_def nfc_update_is_active_def filter_empty_conv)
qed

lemma validate_invalid:
  "active_tokens_with tk db = [] \<Longrightarrow> validate_nfc_token db now tk = (Inl INVALID_TOKEN, db)"
  by (simp add: validate_nfc_token_def read_active_tokens_with)

lemma validate_expired:
  "active_tokens_with tk db = t # rest \<Longrightarrow> tok_expires_at t < now \<Longrightarrow>
     validate_nfc_token db now tk =
       (Inl EXPIRED_TOKEN, db\<lparr>nfc_tokens := nfc_update_is_active (tok_id t) False (nfc_tokens db)\<rparr>)"
  by (simp add: validate_nfc_token_def read_active_tokens_with)

lemma validate_no_profile:
  "active_tokens_with tk db = t # rest \<Longrightarrow> now \<le> tok_expires_at t \<Longrightarrow>
   \<not> profile_exists db (tok_user_id t) (tok_profile_type t) \<Longrightarrow>
     validate_nfc_token db now tk = (Inl PROFILE_NOT_FOUND, db)"
  using read_profiles_empty [of "tok_user_id t" "tok_profile_type t" db]
  by (simp add: validate_nfc_token_def read_active_tokens_with)

lemma validate_ok:
  "active_tokens_with tk db = t # rest \<Longrightarrow> now \<le> tok_expires_at t \<Longrightarrow>
   profile_exists db (tok_user_id t) (tok_profile_type t) \<Longrightarrow>
     \<exists>p. validate_nfc_token db now tk = (Inr \<lparr>vr_profile = p, vr_user_id = tok_user_id t\<rparr>, db)
        \<and> p \<in> set (profiles db) \<and> prof_user_id p = tok_user_id t \<and> prof_type p = tok_profile_type t"
proof -
  assume a: "active_tokens_with tk db = t # rest" "now \<le> tok_expires_at t"
    and pe: "profile_exists db (tok_user_id t) (tok_profile_type t)"
  let ?found = "crud_read (\<lambda>p. prof_user_id p = tok_user_id t \<and> prof_type p = tok_profile_type t) (profiles db)"
  from pe have "?found \<noteq> []" by (simp add: read_profiles_empty)
  then obtain p ps where f: "?found = p # ps" by (cases ?found) auto
  then have "p \<in> set ?found" by simp
  then have "p \<in> set (profiles db) \<and> prof_user_id p = tok_user_id t \<and> prof_type p = tok_profile_type t"
    by (simp add: crud_read_def)
  moreover have "validate_nfc_token db now tk = (Inr \<lparr>vr_profile = p, vr_user_id = tok_user_id t\<rparr>, db)"
    using a f by (simp add: validate_nfc_token_def read_active_tokens_with)
  ultimately show ?thesis by blast
qed

lemma connect_invalid:
  "active_tokens_with tk db = [] \<Longrightarrow> connect_via_nfc db now nid u tk = (Inl INVALID_TOKEN, db)"
  by (simp add: connect_via_nfc_def read_active_tokens_with)

lemma connect_self:
  "active_tokens_with tk db = t # rest \<Longrightarrow> u = tok_user_id t \<Longrightarrow>
     connect_via_nfc db now nid u tk = (Inl SELF_CONNECTION, db)"
  by (simp add: connect_via_nfc_def read_active_tokens_with)

lemma connect_expired:
  "active_tokens_with tk db = t # rest \<Longrightarrow> u \<noteq> tok_user_id t \<Longrightarrow> tok_expires_at t < now \<Longrightarrow>
     connect_via_nfc db now nid u tk =
       (Inl EXPIRED_TOKEN, db\<lparr>nfc_tokens := nfc_update_is_active (tok_id t) False (nfc_tokens db)\<rparr>)"
  by (simp add: connect_via_nfc_def read_active_tokens_with)

lemma connect_exists:
  "active_tokens_with tk db = t # rest \<Longrightarrow> u \<noteq> tok_user_id t \<Longrightarrow> now \<le> tok_expires_at t \<Longrightarrow>
   connected db u (tok_user_id t) \<Longrightarrow>
     connect_via_nfc db now nid u tk = (Inl CONNECTION_EXISTS, db)"
  using read_connections_empty [of u "tok_user_id t" db]
  by (simp add: connect_via_nfc_def read_active_tokens_with)

lemma connect_ok:
  "active_tokens_with tk db = t # rest \<Longrightarrow> u \<noteq> tok_user_id t \<Longrightarrow> now \<le> tok_expires_at t \<Longrightarrow>
   \<not> connected db u (tok_user_id t) \<Longrightarrow>
     connect_via_nfc db now nid u tk =
       (Inr \<lparr>cr_message = ''Connection created successfully'',
             cr_connection = \<lparr>conn_id = nid, conn_user_id = u, conn_connected_user_id = tok_user_id t,
                               conn_connection_type = tok_profile_type t\<rparr>,
             cr_profile = (case crud_read (\<lambda>p. prof_user_id p = tok_user_id t
                                  \<and> prof_type p = tok_profile_type t) (profiles db) of
                             [] \<Rightarrow> None | p # _ \<Rightarrow> Some p)\<rparr>,
        db\<lparr>connections := connections db @ [\<lparr>conn_id = nid, conn_user_id = u,
                               conn_connected_user_id = tok_user_id t,
                               conn_connection_type = tok_profile_type t\<rparr>],
           nfc_tokens := nfc_update_is_active (tok_id t) False (nfc_tokens db)\<rparr>)"
  using read_connections_empty [of u "tok_user_id t" db]
  by (simp add: connect_via_nfc_def read_active_tokens_with Let_def crud_create_def)

section \<open>C9: format of the issued token\<close>

text \<open>
  Claim C9. Whenever \<^verbatim>\<open>generate_nfc_token\<close> succeeds, whatever the random generator
  draws, the token it returns has exactly 32 characters, and each of them is an ASCII
  letter or a digit, taken from an alphabet of 62 distinct characters.
\<close>

theorem token_format:
  assumes "generate_nfc_token cfg db now draws new_id user_id token_data = (Inr resp, db')"
  shows "length (token resp) = 32
         \<and> (\<forall>c \<in> set (token resp). is_ascii_letter c \<or> is_ascii_digit c)
         \<and> set (token resp) \<subseteq> set alphabet \<and> length alphabet = 62 \<and> distinct alphabet"
proof -
  have tk: "token resp = generate_token 32 draws"
    using assms by (rule generate_nfc_token_Inr)
  have "set (generate_token 32 draws) \<subseteq> set alphabet"
    using choice_alphabet by (auto simp: generate_token_def)
  with tk show ?thesis
    using generate_token_length generate_token_chars alphabet_length alphabet_distinct by auto
qed

theorem token_format_witness:
  "generate_nfc_token \<lparr>NFC_TOKEN_EXPIRE_MINUTES = 60\<rparr>
     \<lparr>nfc_tokens = [],
      profiles = [\<lparr>prof_id = ''p1'', prof_user_id = ''u1'', prof_name = ''Ann'', prof_type = ''family''\<rparr>],
      connections = []\<rparr>
     1000 (\<lambda>i. 7 * i + 3) ''t1'' ''u1'' Family
   = (Inr \<lparr>token = ''dkryFMT07elszGNU18fmtAHOV29gnuBI'', profile_type = ''family'',
           expires_at = 3600001000\<rparr>,
      \<lparr>nfc_tokens = [\<lparr>tok_id = ''t1'', tok_user_id = ''u1'',
                       tok_token = ''dkryFMT07elszGNU18fmtAHOV29gnuBI'',
                       tok_profile_type = ''family'', tok_is_active = True,
                       tok_expires_at = 3600001000\<rparr>],
       profiles = [\<lparr>prof_id = ''p1'', prof_user_id = ''u1'', prof_name = ''Ann'', prof_type = ''family''\<rparr>],
       connections = []\<rparr>)
   \<and> length ''dkryFMT07elszGNU18fmtAHOV29gnuBI'' = 32
   \<and> list_all (\<lambda>c. is_ascii_letter c \<or> is_ascii_digit c) ''dkryFMT07elszGNU18fmtAHOV29gnuBI''"
proof -
  have tk: "generate_token 32 (\<lambda>i. 7 * i + 3) = ''dkryFMT07elszGNU18fmtAHOV29gnuBI''"
    by code_simp
  have run: "generate_nfc_token \<lparr>NFC_TOKEN_EXPIRE_MINUTES = 60\<rparr>
     \<lparr>nfc_tokens = [],
      profiles = [\<lparr>prof_id = ''p1'', prof_user_id = ''u1'', prof_name = ''Ann'', prof_type = ''family''\<rparr>],
      connections = []\<rparr>
     1000 (\<lambda>i. 7 * i + 3) ''t1'' ''u1'' Family
   = (Inr \<lparr>token = ''dkryFMT07elszGNU18fmtAHOV29gnuBI'', profile_type = ''family'',
           expires_at = 3600001000\<rparr>,
      \<lparr>nfc_tokens = [\<lparr>tok_id = ''t1'', tok_user_id = ''u1'',
                       tok_token = ''dkryFMT07elszGNU18fmtAHOV29gnuBI'',
                       tok_profile_type = ''family'', tok_is_active = True,
                       tok_expires_at = 3600001000\<rparr>],
       profiles = [\<lparr>prof_id = ''p1'', prof_user_id = ''u1'', prof_name = ''Ann'', prof_type = ''family''\<rparr>],
       connections = []\<rparr>)"
    by (simp add: generate_nfc_token_def crud_read_def crud_create_def tk compute_expires_at_def
          timedelta_minutes_def datetime_add_def datetime_min_def datetime_max_def Let_def)
  from token_format [OF run] run show ?thesis by (simp add: list_all_iff)
qed

section \<open>Evaluating the scenario\<close>

lemmas scenario_defs = scenario_db_def scenario_token_def scenario_profile_def
  active_tokens_with_def connected_def profile_exists_def

section \<open>C1: a token is redeemed once\<close>

text \<open>
  Claim C1. Let a token value name exactly one active token. A first call of
  \<^verbatim>\<open>connect_via_nfc\<close> with it, by a user who is not the owner and not yet connected
  to the owner, at a time that is not past \<open>expires_at\<close>, succeeds: it appends exactly
  one connection (redeemer, owner, profile type) and deactivates the token. Every later
  call with the same value, by any user at any time, fails with \<open>INVALID_TOKEN\<close> and
  leaves the database as it is.
\<close>

theorem redeem_single_use:
  assumes "active_tokens_with tk db = [t]"
    and "u \<noteq> tok_user_id t"
    and "\<not> connected db u (tok_user_id t)"
    and "now \<le> tok_expires_at t"
  shows "\<exists>resp db1.
           connect_via_nfc db now nid u tk = (Inr resp, db1)
         \<and> cr_connection resp = \<lparr>conn_id = nid, conn_user_id = u,
                                   conn_connected_user_id = tok_user_id t,
                                   conn_connection_type = tok_profile_type t\<rparr>
         \<and> connections db1 = connections db @ [cr_connection resp]
         \<and> deactivated t db1
         \<and> active_tokens_with tk db1 = []
         \<and> (\<forall>now2 nid2 u2. connect_via_nfc db1 now2 nid2 u2 tk = (Inl INVALID_TOKEN, db1))"
proof -
  let ?c = "\<lparr>conn_id = nid, conn_user_id = u, conn_connected_user_id = tok_user_id t,
             conn_connection_type = tok_profile_type t\<rparr>"
  let ?db0 = "db\<lparr>connections := connections db @ [?c]\<rparr>"
  let ?db1 = "?db0\<lparr>nfc_tokens := nfc_update_is_active (tok_id t) False (nfc_tokens ?db0)\<rparr>"
  let ?resp = "\<lparr>cr_message = ''Connection created successfully'', cr_connection = ?c,
                cr_profile = (case crud_read (\<lambda>p. prof_user_id p = tok_user_id t
                                  \<and> prof_type p = tok_profile_type t) (profiles db) of
                                [] \<Rightarrow> None | p # _ \<Rightarrow> Some p)\<rparr>"
  have run: "connect_via_nfc db now nid u tk = (Inr ?resp, ?db1)"
    using connect_ok [OF assms(1) assms(2) assms(4) assms(3), of nid] by simp
  have t_in: "t \<in> set (nfc_tokens ?db0)"
    using first_active_row(1) [OF assms(1)] by simp
  have deact: "deactivated t ?db1"
    using t_in by (rule update_deactivates)
  have "active_tokens_with tk ?db0 = [t]"
    using assms(1) by (simp add: active_tokens_with_def)
  then have gone: "active_tokens_with tk ?db1 = []"
    by (rule lookup_after_update)
  have again: "connect_via_nfc ?db1 now2 nid2 u2 tk = (Inl INVALID_TOKEN, ?db1)" for now2 nid2 u2
    using gone by (rule connect_invalid)
  show ?thesis
    using run deact gone again by (intro exI [of _ ?resp] exI [of _ ?db1]) simp
qed

theorem redeem_single_use_witness:
  "active_tokens_with ''T1'' scenario_db = [scenario_token]
   \<and> ''U2'' \<noteq> tok_user_id scenario_token
   \<and> \<not> connected scenario_db ''U2'' (tok_user_id scenario_token)
   \<and> 100 \<le> tok_expires_at scenario_token
   \<and> connect_via_nfc scenario_db 100 ''c1'' ''U2'' ''T1''
       = (Inr \<lparr>cr_message = ''Connection created successfully'',
               cr_connection = \<lparr>conn_id = ''c1'', conn_user_id = ''U2'',
                                 conn_connected_user_id = ''U1'', conn_connection_type = ''family''\<rparr>,
               cr_profile = Some scenario_profile\<rparr>,
          \<lparr>nfc_tokens = [scenario_token\<lparr>tok_is_active := False\<rparr>],
           profiles = [scenario_profile],
           connections = [\<lparr>conn_id = ''c1'', conn_user_id = ''U2'',
                            conn_connected_user_id = ''U1'', conn_connection_type = ''family''\<rparr>]\<rparr>)
   \<and> connect_via_nfc
         \<lparr>nfc_tokens = [scenario_token\<lparr>tok_is_active := False\<rparr>],
          profiles = [scenario_profile],
          connections = [\<lparr>conn_id = ''c1'', conn_user_id = ''U2'',
                           conn_connected_user_id = ''U1'', conn_connection_type = ''family''\<rparr>]\<rparr>
         200 ''c2'' ''U3'' ''T1''
       = (Inl INVALID_TOKEN,
          \<lparr>nfc_tokens = [scenario_token\<lparr>tok_is_active := False\<rparr>],
           profiles = [scenario_profile],
           connections = [\<lparr>conn_id = ''c1'', conn_user_id = ''U2'',
                            conn_connected_user_id = ''U1'', conn_connection_type = ''family''\<rparr>]\<rparr>)"
proof -
  have h1: "active_tokens_with ''T1'' scenario_db = [scenario_token]"
    by (simp add: scenario_defs)
  have h2: "''U2'' \<noteq> tok_user_id scenario_token"
    by (simp add: scenario_defs)
  have h3: "\<not> connected scenario_db ''U2'' (tok_user_id scenario_token)"
    by (simp add: scenario_defs)
  have h4: "100 \<le> tok_expires_at scenario_token"
    by (simp add: scenario_defs)
  have run: "connect_via_nfc scenario_db 100 ''c1'' ''U2'' ''T1''
       = (Inr \<lparr>cr_message = ''Connection created successfully'',
               cr_connection = \<lparr>conn_id = ''c1'', conn_user_id = ''U2'',
                                 conn_connected_user_id = ''U1'', conn_connection_type = ''family''\<rparr>,
               cr_profile = Some scenario_profile\<rparr>,
          \<lparr>nfc_tokens = [scenario_token\<lparr>tok_is_active := False\<rparr>],
           profiles = [scenario_profile],
           connections = [\<lparr>conn_id = ''c1'', conn_user_id = ''U2'',
                            conn_connected_user_id = ''U1'', conn_connection_type = ''family''\<rparr>]\<rparr>)"
    by (simp add: connect_via_nfc_def crud_read_def crud_create_def nfc_update_is_active_def
          scenario_defs Let_def)
  from redeem_single_use [OF h1 h2 h3 h4, of "''c1''"] run h1 h2 h3 h4
  show ?thesis by auto
qed

section \<open>C3: the expiry boundary of validation\<close>

text \<open>
  Claim C3 says that validation fails with \<open>EXPIRED_TOKEN\<close> at every time
  \<open>t \<ge> expires_at\<close>. The handler compares \<^verbatim>\<open>expires_at < now\<close>: at the instant
  \<open>expires_at\<close> itself the token is still valid. In the scenario, validating \<open>T1\<close> at
  time 3600, its \<open>expires_at\<close>, returns the profile and leaves the token active.
\<close>

theorem validate_at_expires_at_counterexample:
  "active_tokens_with ''T1'' scenario_db = [scenario_token]
   \<and> tok_expires_at scenario_token = 3600
   \<and> validate_nfc_token scenario_db 3600 ''T1''
       = (Inr \<lparr>vr_profile = scenario_profile, vr_user_id = ''U1''\<rparr>, scenario_db)
   \<and> fst (validate_nfc_token scenario_db 3600 ''T1'') \<noteq> Inl EXPIRED_TOKEN
   \<and> active_tokens_with ''T1'' (snd (validate_nfc_token scenario_db 3600 ''T1'')) = [scenario_token]"
  by (simp add: validate_nfc_token_def crud_read_def scenario_defs)

text \<open>
  Claim C3, amended. For the active token that a value names, validating at any time
  \<open>t \<le> expires_at\<close> succeeds when the owner's profile exists and changes nothing;
  validating at any time \<open>t > expires_at\<close> fails with \<open>EXPIRED_TOKEN\<close> and deactivates
  the token, leaving profiles and connections alone.
\<close>

theorem validate_expiry_boundary:
  assumes "active_tokens_with tk db = t # rest"
  shows "(now \<le> tok_expires_at t \<and> profile_exists db (tok_user_id t) (tok_profile_type t) \<longrightarrow>
            (\<exists>p. validate_nfc_token db now tk
                    = (Inr \<lparr>vr_profile = p, vr_user_id = tok_user_id t\<rparr>, db)
                 \<and> p \<in> set (profiles db)
                 \<and> prof_user_id p = tok_user_id t \<and> prof_type p = tok_profile_type t))
       \<and> (tok_expires_at t < now \<longrightarrow>
            (\<exists>db'. validate_nfc_token db now tk = (Inl EXPIRED_TOKEN, db')
                  \<and> deactivated t db'
                  \<and> profiles db' = profiles db \<and> connections db' = connections db))"
proof (intro conjI impI)
  assume "now \<le> tok_expires_at t \<and> profile_exists db (tok_user_id t) (tok_profile_type t)"
  then show "\<exists>p. validate_nfc_token db now tk
                    = (Inr \<lparr>vr_profile = p, vr_user_id = tok_user_id t\<rparr>, db)
                 \<and> p \<in> set (profiles db)
                 \<and> prof_user_id p = tok_user_id t \<and> prof_type p = tok_profile_type t"
    using validate_ok [OF assms] by blast
next
  assume late: "tok_expires_at t < now"
  let ?db' = "db\<lparr>nfc_tokens := nfc_update_is_active (tok_id t) False (nfc_tokens db)\<rparr>"
  have "validate_nfc_token db now tk = (Inl EXPIRED_TOKEN, ?db')"
    using assms late by (rule validate_expired)
  moreover have "deactivated t ?db'"
    using first_active_row(1) [OF assms] by (rule update_deactivates)
  ultimately show "\<exists>db'. validate_nfc_token db now tk = (Inl EXPIRED_TOKEN, db')
                  \<and> deactivated t db'
                  \<and> profiles db' = profiles db \<and> connections db' = connections db"
    by (intro exI [of _ ?db']) simp
qed

theorem validate_expiry_boundary_witness:
  "active_tokens_with ''T1'' scenario_db = [scenario_token]
   \<and> 3600 \<le> tok_expires_at scenario_token
   \<and> profile_exists scenario_db (tok_user_id scenario_token) (tok_profile_type scenario_token)
   \<and> validate_nfc_token scenario_db 3600 ''T1''
       = (Inr \<lparr>vr_profile = scenario_profile, vr_user_id = ''U1''\<rparr>, scenario_db)
   \<and> tok_expires_at scenario_token < 3601
   \<and> validate_nfc_token scenario_db 3601 ''T1''
       = (Inl EXPIRED_TOKEN, scenario_db\<lparr>nfc_tokens := [scenario_token\<lparr>tok_is_active := False\<rparr>]\<rparr>)
   \<and> deactivated scenario_token (snd (validate_nfc_token scenario_db 3601 ''T1''))"
proof -
  have h: "active_tokens_with ''T1'' scenario_db = [scenario_token]"
    by (simp add: scenario_defs)
  have early: "3600 \<le> tok_expires_at scenario_token
      \<and> profile_exists scenario_db (tok_user_id scenario_token) (tok_profile_type scenario_token)"
    by (simp add: scenario_defs)
  have late: "tok_expires_at scenario_token < 3601"
    by (simp add: scenario_defs)
  have run1: "validate_nfc_token scenario_db 3600 ''T1''
       = (Inr \<lparr>vr_profile = scenario_profile, vr_user_id = ''U1''\<rparr>, scenario_db)"
    by (simp add: validate_nfc_token_def crud_read_def scenario_defs)
  have run2: "validate_nfc_token scenario_db 3601 ''T1''
       = (Inl EXPIRED_TOKEN, scenario_db\<lparr>nfc_tokens := [scenario_token\<lparr>tok_is_active := False\<rparr>]\<rparr>)"
    by (simp add: validate_nfc_token_def crud_read_def nfc_update_is_active_def scenario_defs)
  from validate_expiry_boundary [OF h, of 3601] late
  have "deactivated scenario_token (snd (validate_nfc_token scenario_db 3601 ''T1''))"
    by auto
  with h early late run1 run2 show ?thesis by simp
qed

section \<open>C4: self-connection\<close>

text \<open>
  Claim C4 says that the owner redeeming an own token gets \<open>SELF_CONNECTION\<close> whatever
  the state of the token, also when it has been deactivated. The handler first reads the
  active tokens with that value: for a deactivated token it finds none and answers
  \<open>INVALID_TOKEN\<close>. Here \<open>U1\<close> redeems the own token \<open>T1\<close> after it has been
  deactivated.
\<close>

theorem self_connection_deactivated_counterexample:
  "tok_user_id scenario_token = ''U1''
   \<and> connect_via_nfc (scenario_db\<lparr>nfc_tokens := [scenario_token\<lparr>tok_is_active := False\<rparr>]\<rparr>)
        100 ''c1'' ''U1'' ''T1''
       = (Inl INVALID_TOKEN, scenario_db\<lparr>nfc_tokens := [scenario_token\<lparr>tok_is_active := False\<rparr>]\<rparr>)
   \<and> fst (connect_via_nfc (scenario_db\<lparr>nfc_tokens := [scenario_token\<lparr>tok_is_active := False\<rparr>]\<rparr>)
        100 ''c1'' ''U1'' ''T1'') \<noteq> Inl SELF_CONNECTION"
  by (simp add: connect_via_nfc_def crud_read_def scenario_defs)

text \<open>
  Claim C4, amended. For every owner and every active token of that owner, whether before
  or past \<open>expires_at\<close>, redeeming it as the owner fails with \<open>SELF_CONNECTION\<close> and
  changes nothing; when the value names no active token (the token has been deactivated),
  the call fails with \<open>INVALID_TOKEN\<close> instead.
\<close>

theorem self_connection_rejected:
  "(active_tokens_with tk db = t # rest \<and> tok_user_id t = owner \<longrightarrow>
      connect_via_nfc db now nid owner tk = (Inl SELF_CONNECTION, db))
   \<and> (active_tokens_with tk db = [] \<longrightarrow>
      connect_via_nfc db now nid owner tk = (Inl INVALID_TOKEN, db))"
  using connect_self [of tk db t rest owner now nid] connect_invalid [of tk db now nid owner]
  by blast

theorem self_connection_rejected_witness:
  "active_tokens_with ''T1'' scenario_db = [scenario_token]
   \<and> tok_user_id scenario_token = ''U1''
   \<and> connect_via_nfc scenario_db 100 ''c1'' ''U1'' ''T1'' = (Inl SELF_CONNECTION, scenario_db)
   \<and> tok_expires_at scenario_token < 4000
   \<and> connect_via_nfc scenario_db 4000 ''c1'' ''U1'' ''T1'' = (Inl SELF_CONNECTION, scenario_db)
   \<and> active_tokens_with ''T1'' (scenario_db\<lparr>nfc_tokens := [scenario_token\<lparr>tok_is_active := False\<rparr>]\<rparr>) = []
   \<and> connect_via_nfc (scenario_db\<lparr>nfc_tokens := [scenario_token\<lparr>tok_is_active := False\<rparr>]\<rparr>)
        100 ''c1'' ''U1'' ''T1''
       = (Inl INVALID_TOKEN, scenario_db\<lparr>nfc_tokens := [scenario_token\<lparr>tok_is_active := False\<rparr>]\<rparr>)"
proof -
  have h1: "active_tokens_with ''T1'' scenario_db = [scenario_token]"
    and h2: "tok_user_id scenario_token = ''U1''"
    and h3: "tok_expires_at scenario_token < 4000"
    and h4: "active_tokens_with ''T1''
               (scenario_db\<lparr>nfc_tokens := [scenario_token\<lparr>tok_is_active := False\<rparr>]\<rparr>) = []"
    by (simp_all add: scenario_defs)
  show ?thesis
    using h1 h2 h3 h4
      self_connection_rejected [of "''T1''" scenario_db scenario_token "[]" "''U1''" 100 "''c1''"]
      self_connection_rejected [of "''T1''" scenario_db scenario_token "[]" "''U1''" 4000 "''c1''"]
      self_connection_rejected [of "''T1''"
        "scenario_db\<lparr>nfc_tokens := [scenario_token\<lparr>tok_is_active := False\<rparr>]\<rparr>"
        scenario_token "[]" "''U1''" 100 "''c1''"]
    by simp
qed

section \<open>C5: the order of the expiry and self-connection checks\<close>

text \<open>
  Claim C5 says that redemption checks expiry before self-connection, so that the owner
  presenting an own expired token gets \<open>EXPIRED_TOKEN\<close> and the token is deactivated.
  The handler checks self-connection first: here \<open>U1\<close> redeems the own token \<open>T1\<close> at
  time 4000, past its \<open>expires_at\<close>, gets \<open>SELF_CONNECTION\<close>, and the token stays
  active.
\<close>

theorem redeem_expired_by_owner_counterexample:
  "active_tokens_with ''T1'' scenario_db = [scenario_token]
   \<and> tok_user_id scenario_token = ''U1''
   \<and> tok_expires_at scenario_token < 4000
   \<and> connect_via_nfc scenario_db 4000 ''c1'' ''U1'' ''T1'' = (Inl SELF_CONNECTION, scenario_db)
   \<and> fst (connect_via_nfc scenario_db 4000 ''c1'' ''U1'' ''T1'') \<noteq> Inl EXPIRED_TOKEN
   \<and> active_tokens_with ''T1'' (snd (connect_via_nfc scenario_db 4000 ''c1'' ''U1'' ''T1''))
       = [scenario_token]"
  by (simp add: connect_via_nfc_def crud_read_def scenario_defs Let_def)

text \<open>
  Claim C5, amended. Redemption checks self-connection before expiry. For every redeemer
  other than the owner and every active token whose \<open>expires_at\<close> is before now,
  redemption fails with \<open>EXPIRED_TOKEN\<close> and deactivates the token, leaving exactly the
  database that validation leaves; for the owner it fails with \<open>SELF_CONNECTION\<close> and
  changes nothing.
\<close>

theorem redeem_expired_order:
  assumes "active_tokens_with tk db = t # rest"
    and "tok_expires_at t < now"
  shows "(u \<noteq> tok_user_id t \<longrightarrow>
            (\<exists>db'. connect_via_nfc db now nid u tk = (Inl EXPIRED_TOKEN, db')
                  \<and> deactivated t db'
                  \<and> connections db' = connections db
                  \<and> validate_nfc_token db now tk = (Inl EXPIRED_TOKEN, db')))
       \<and> (u = tok_user_id t \<longrightarrow> connect_via_nfc db now nid u tk = (Inl SELF_CONNECTION, db))"
proof (intro conjI impI)
  assume other: "u \<noteq> tok_user_id t"
  let ?db' = "db\<lparr>nfc_tokens := nfc_update_is_active (tok_id t) False (nfc_tokens db)\<rparr>"
  have "connect_via_nfc db now nid u tk = (Inl EXPIRED_TOKEN, ?db')"
    using assms(1) other assms(2) by (rule connect_expired)
  moreover have "validate_nfc_token db now tk = (Inl EXPIRED_TOKEN, ?db')"
    using assms by (rule validate_expired)
  moreover have "deactivated t ?db'"
    using first_active_row(1) [OF assms(1)] by (rule update_deactivates)
  ultimately show "\<exists>db'. connect_via_nfc db now nid u tk = (Inl EXPIRED_TOKEN, db')
                  \<and> deactivated t db'
                  \<and> connections db' = connections db
                  \<and> validate_nfc_token db now tk = (Inl EXPIRED_TOKEN, db')"
    by (intro exI [of _ ?db']) simp
next
  assume "u = tok_user_id t"
  with assms(1) show "connect_via_nfc db now nid u tk = (Inl SELF_CONNECTION, db)"
    by (rule connect_self)
qed

theorem redeem_expired_order_witness:
  "active_tokens_with ''T1'' scenario_db = [scenario_token]
   \<and> tok_expires_at scenario_token < 4000
   \<and> ''U2'' \<noteq> tok_user_id scenario_token
   \<and> connect_via_nfc scenario_db 4000 ''c1'' ''U2'' ''T1''
       = (Inl EXPIRED_TOKEN, scenario_db\<lparr>nfc_tokens := [scenario_token\<lparr>tok_is_active := False\<rparr>]\<rparr>)
   \<and> validate_nfc_token scenario_db 4000 ''T1''
       = (Inl EXPIRED_TOKEN, scenario_db\<lparr>nfc_tokens := [scenario_token\<lparr>tok_is_active := False\<rparr>]\<rparr>)
   \<and> ''U1'' = tok_user_id scenario_token
   \<and> connect_via_nfc scenario_db 4000 ''c1'' ''U1'' ''T1'' = (Inl SELF_CONNECTION, scenario_db)"
proof -
  have h1: "active_tokens_with ''T1'' scenario_db = [scenario_token]"
    and h2: "tok_expires_at scenario_token < 4000"
    and h3: "''U2'' \<noteq> tok_user_id scenario_token"
    and h4: "''U1'' = tok_user_id scenario_token"
    by (simp_all add: scenario_defs)
  have run: "connect_via_nfc scenario_db 4000 ''c1'' ''U2'' ''T1''
       = (Inl EXPIRED_TOKEN, scenario_db\<lparr>nfc_tokens := [scenario_token\<lparr>tok_is_active := False\<rparr>]\<rparr>)"
    by (simp add: connect_via_nfc_def crud_read_def nfc_update_is_active_def scenario_defs Let_def)
  show ?thesis
    using h1 h2 h3 h4 run
      redeem_expired_order [OF h1 h2, of "''U2''" "''c1''"]
      redeem_expired_order [OF h1 h2, of "''U1''" "''c1''"]
    by auto
qed

section \<open>C6: the duplicate-connection guard\<close>

text \<open>
  Claim C6. Let \<open>a\<close> and \<open>b\<close> be distinct users and let a connection from \<open>a\<close> to
  \<open>b\<close> exist, of any connection type. Then a redemption by \<open>a\<close> of any active token
  of \<open>b\<close> that is not past \<open>expires_at\<close> fails with \<open>CONNECTION_EXISTS\<close> and leaves
  the database as it is; the profile type of the token plays no part.
\<close>

theorem duplicate_connection_guard:
  assumes "active_tokens_with tk db = t # rest"
    and "tok_user_id t = b"
    and "a \<noteq> b"
    and "now \<le> tok_expires_at t"
    and "c \<in> set (connections db)"
    and "conn_user_id c = a"
    and "conn_connected_user_id c = b"
  shows "connect_via_nfc db now nid a tk = (Inl CONNECTION_EXISTS, db)"
proof -
  have "connected db a (tok_user_id t)"
    using assms(2,5,6,7) by (auto simp: connected_def)
  moreover have "a \<noteq> tok_user_id t"
    using assms(2,3) by simp
  ultimately show ?thesis
    using assms(1,4) by (simp add: connect_exists)
qed

theorem duplicate_connection_guard_witness:
  "active_tokens_with ''T1''
     (scenario_db\<lparr>connections := [\<lparr>conn_id = ''c0'', conn_user_id = ''U2'',
         conn_connected_user_id = ''U1'', conn_connection_type = ''work''\<rparr>]\<rparr>) = [scenario_token]
   \<and> tok_user_id scenario_token = ''U1''
   \<and> ''U2'' \<noteq> ''U1''
   \<and> 100 \<le> tok_expires_at scenario_token
   \<and> conn_connection_type \<lparr>conn_id = ''c0'', conn_user_id = ''U2'',
         conn_connected_user_id = ''U1'', conn_connection_type = ''work''\<rparr>
       \<noteq> tok_profile_type scenario_token
   \<and> connect_via_nfc
       (scenario_db\<lparr>connections := [\<lparr>conn_id = ''c0'', conn_user_id = ''U2'',
         conn_connected_user_id = ''U1'', conn_connection_type = ''work''\<rparr>]\<rparr>)
       100 ''c1'' ''U2'' ''T1''
     = (Inl CONNECTION_EXISTS,
        scenario_db\<lparr>connections := [\<lparr>conn_id = ''c0'', conn_user_id = ''U2'',
         conn_connected_user_id = ''U1'', conn_connection_type = ''work''\<rparr>]\<rparr>)"
proof -
  let ?c = "\<lparr>conn_id = ''c0'', conn_user_id = ''U2'',
         conn_connected_user_id = ''U1'', conn_connection_type = ''work''\<rparr>"
  let ?db = "scenario_db\<lparr>connections := [?c]\<rparr>"
  have h1: "active_tokens_with ''T1'' ?db = [scenario_token]"
    and h2: "tok_user_id scenario_token = ''U1''"
    and h3: "''U2'' \<noteq> ''U1''"
    and h4: "100 \<le> tok_expires_at scenario_token"
    and h5: "?c \<in> set (connections ?db)"
    and h6: "conn_user_id ?c = ''U2''"
    and h7: "conn_connected_user_id ?c = ''U1''"
    and ty: "conn_connection_type ?c \<noteq> tok_profile_type scenario_token"
    by (simp_all add: scenario_defs)
  from duplicate_connection_guard [OF h1 h2 h3 h4 h5 h6 h7, of "''c1''"] h1 h2 h3 h4 ty
  show ?thesis by simp
qed

section \<open>C7: redemption tolerates a missing profile\<close>

text \<open>
  Claim C7. Let an active token, not past \<open>expires_at\<close>, belong to an owner who has no
  profile of the token's type. A redemption by another user who is not yet connected to
  the owner succeeds: it appends the connection, deactivates the token and answers with
  no profile. Validation in the same state fails with \<open>PROFILE_NOT_FOUND\<close>.
\<close>

theorem redeem_without_profile:
  assumes "active_tokens_with tk db = t # rest"
    and "u \<noteq> tok_user_id t"
    and "\<not> connected db u (tok_user_id t)"
    and "now \<le> tok_expires_at t"
    and "\<not> profile_exists db (tok_user_id t) (tok_profile_type t)"
  shows "\<exists>resp db'.
           connect_via_nfc db now nid u tk = (Inr resp, db')
         \<and> cr_profile resp = None
         \<and> cr_connection resp = \<lparr>conn_id = nid, conn_user_id = u,
                                   conn_connected_user_id = tok_user_id t,
                                   conn_connection_type = tok_profile_type t\<rparr>
         \<and> connections db' = connections db @ [cr_connection resp]
         \<and> deactivated t db'
         \<and> validate_nfc_token db now tk = (Inl PROFILE_NOT_FOUND, db)"
proof -
  let ?c = "\<lparr>conn_id = nid, conn_user_id = u, conn_connected_user_id = tok_user_id t,
             conn_connection_type = tok_profile_type t\<rparr>"
  let ?db0 = "db\<lparr>connections := connections db @ [?c]\<rparr>"
  let ?db1 = "?db0\<lparr>nfc_tokens := nfc_update_is_active (tok_id t) False (nfc_tokens ?db0)\<rparr>"
  let ?resp = "\<lparr>cr_message = ''Connection created successfully'', cr_connection = ?c,
                cr_profile = None\<rparr>"
  have none: "crud_read (\<lambda>p. prof_user_id p = tok_user_id t
                \<and> prof_type p = tok_profile_type t) (profiles db) = []"
    using assms(5) by (simp add: read_profiles_empty)
  have run: "connect_via_nfc db now nid u tk = (Inr ?resp, ?db1)"
    using connect_ok [OF assms(1) assms(2) assms(4) assms(3), of nid] none by simp
  have deact: "deactivated t ?db1"
    using first_active_row(1) [OF assms(1)] update_deactivates [of t "nfc_tokens ?db0" ?db0]
    by simp
  have val: "validate_nfc_token db now tk = (Inl PROFILE_NOT_FOUND, db)"
    using assms(1,4,5) by (rule validate_no_profile)
  show ?thesis
    using run deact val by (intro exI [of _ ?resp] exI [of _ ?db1]) simp
qed

theorem redeem_without_profile_witness:
  "active_tokens_with ''T1'' (scenario_db\<lparr>profiles := []\<rparr>) = [scenario_token]
   \<and> ''U2'' \<noteq> tok_user_id scenario_token
   \<and> \<not> connected (scenario_db\<lparr>profiles := []\<rparr>) ''U2'' (tok_user_id scenario_token)
   \<and> 100 \<le> tok_expires_at scenario_token
   \<and> \<not> profile_exists (scenario_db\<lparr>profiles := []\<rparr>)
         (tok_user_id scenario_token) (tok_profile_type scenario_token)
   \<and> connect_via_nfc (scenario_db\<lparr>profiles := []\<rparr>) 100 ''c1'' ''U2'' ''T1''
       = (Inr \<lparr>cr_message = ''Connection created successfully'',
               cr_connection = \<lparr>conn_id = ''c1'', conn_user_id = ''U2'',
                                 conn_connected_user_id = ''U1'', conn_connection_type = ''family''\<rparr>,
               cr_profile = None\<rparr>,
          \<lparr>nfc_tokens = [scenario_token\<lparr>tok_is_active := False\<rparr>],
           profiles = [],
           connections = [\<lparr>conn_id = ''c1'', conn_user_id = ''U2'',
                            conn_connected_user_id = ''U1'', conn_connection_type = ''family''\<rparr>]\<rparr>)
   \<and> validate_nfc_token (scenario_db\<lparr>profiles := []\<rparr>) 100 ''T1''
       = (Inl PROFILE_NOT_FOUND, scenario_db\<lparr>profiles := []\<rparr>)"
proof -
  let ?db = "scenario_db\<lparr>profiles := []\<rparr>"
  have h1: "active_tokens_with ''T1'' ?db = [scenario_token]"
    and h2: "''U2'' \<noteq> tok_user_id scenario_token"
    and h3: "\<not> connected ?db ''U2'' (tok_user_id scenario_token)"
    and h4: "100 \<le> tok_expires_at scenario_token"
    and h5: "\<not> profile_exists ?db (tok_user_id scenario_token) (tok_profile_type scenario_token)"
    by (simp_all add: scenario_defs)
  have run: "connect_via_nfc ?db 100 ''c1'' ''U2'' ''T1''
       = (Inr \<lparr>cr_message = ''Connection created successfully'',
               cr_connection = \<lparr>conn_id = ''c1'', conn_user_id = ''U2'',
                                 conn_connected_user_id = ''U1'', conn_connection_type = ''family''\<rparr>,
               cr_profile = None\<rparr>,
          \<lparr>nfc_tokens = [scenario_token\<lparr>tok_is_active := False\<rparr>],
           profiles = [],
           connections = [\<lparr>conn_id = ''c1'', conn_user_id = ''U2'',
                            conn_connected_user_id = ''U1'', conn_connection_type = ''family''\<rparr>]\<rparr>)"
    by (simp add: connect_via_nfc_def crud_read_def crud_create_def nfc_update_is_active_def
          scenario_defs Let_def)
  from redeem_without_profile [OF h1 h2 h3 h4 h5, of "''c1''"] run h1 h2 h3 h4 h5
  show ?thesis by auto
qed

section \<open>Issuing\<close>

lemma generate_no_profile:
  "\<not> profile_exists db u (profile_type_value pt) \<Longrightarrow>
     generate_nfc_token cfg db now draws nid u pt = (Inl PROFILE_NOT_FOUND, db)"
  using read_profiles_empty [of u "profile_type_value pt" db]
  by (simp add: generate_nfc_token_def)

lemma generate_frame:
  "connections (snd (generate_nfc_token cfg db now draws nid u pt)) = connections db"
  "profiles (snd (generate_nfc_token cfg db now draws nid u pt)) = profiles db"
  by (simp_all add: generate_nfc_token_def Let_def split: option.split)

section \<open>C8: issuing without a profile writes nothing\<close>

text \<open>
  Claim C8. When the user has no profile of the requested type, \<^verbatim>\<open>generate_nfc_token\<close>
  fails with \<open>PROFILE_NOT_FOUND\<close> and returns the database as it found it: no token is
  inserted, none is deactivated, connections and profiles are untouched. In every run,
  successful or not, the connections and the profiles after the call are those before
  it.
\<close>

theorem issue_without_profile:
  "(\<not> profile_exists db u (profile_type_value pt) \<longrightarrow>
      generate_nfc_token cfg db now draws nid u pt = (Inl PROFILE_NOT_FOUND, db))
   \<and> connections (snd (generate_nfc_token cfg db now draws nid u pt)) = connections db
   \<and> profiles (snd (generate_nfc_token cfg db now draws nid u pt)) = profiles db"
  using generate_no_profile [of db u pt cfg now draws nid] generate_frame [of cfg db now draws nid u pt]
  by blast

theorem issue_without_profile_witness:
  "\<not> profile_exists scenario_db ''U1'' (profile_type_value Work)
   \<and> generate_nfc_token \<lparr>NFC_TOKEN_EXPIRE_MINUTES = 60\<rparr> scenario_db 100 (\<lambda>i. i) ''t2'' ''U1'' Work
       = (Inl PROFILE_NOT_FOUND, scenario_db)
   \<and> nfc_tokens (snd (generate_nfc_token \<lparr>NFC_TOKEN_EXPIRE_MINUTES = 60\<rparr> scenario_db 100
        (\<lambda>i. i) ''t2'' ''U1'' Work)) = [scenario_token]
   \<and> connections (snd (generate_nfc_token \<lparr>NFC_TOKEN_EXPIRE_MINUTES = 60\<rparr> scenario_db 100
        (\<lambda>i. i) ''t2'' ''U1'' Family)) = []
   \<and> profiles (snd (generate_nfc_token \<lparr>NFC_TOKEN_EXPIRE_MINUTES = 60\<rparr> scenario_db 100
        (\<lambda>i. i) ''t2'' ''U1'' Family)) = [scenario_profile]"
proof -
  have h: "\<not> profile_exists scenario_db ''U1'' (profile_type_value Work)"
    by (simp add: scenario_defs)
  have db: "nfc_tokens scenario_db = [scenario_token]" "connections scenario_db = []"
    "profiles scenario_db = [scenario_profile]"
    by (simp_all add: scenario_db_def)
  show ?thesis
    using h db
      issue_without_profile [of scenario_db "''U1''" Work "\<lparr>NFC_TOKEN_EXPIRE_MINUTES = 60\<rparr>" 100
        "\<lambda>i. i" "''t2''"]
      issue_without_profile [of scenario_db "''U1''" Family "\<lparr>NFC_TOKEN_EXPIRE_MINUTES = 60\<rparr>" 100
        "\<lambda>i. i" "''t2''"]
    by simp
qed

section \<open>C10: failed redemptions that leave the token usable\<close>

text \<open>
  Claim C10. When \<^verbatim>\<open>connect_via_nfc\<close> fails with \<open>CONNECTION_EXISTS\<close> or
  \<open>SELF_CONNECTION\<close>, the database is unchanged: the presented token is still active and
  no connection has been created, so that any other user who is not the owner and not
  yet connected to the owner can still redeem the same token while it is not past
  \<open>expires_at\<close>. In every run, the token table changes only when the call fails with
  \<open>EXPIRED_TOKEN\<close> or succeeds.
\<close>

theorem failed_redeem_keeps_token:
  assumes "connect_via_nfc db now nid u tk = (res, db')"
  shows "(res = Inl CONNECTION_EXISTS \<or> res = Inl SELF_CONNECTION \<longrightarrow>
            db' = db
          \<and> (\<exists>t rest. active_tokens_with tk db' = t # rest
               \<and> (\<forall>u2 now2 nid2.
                     u2 \<noteq> tok_user_id t \<and> \<not> connected db' u2 (tok_user_id t)
                       \<and> now2 \<le> tok_expires_at t \<longrightarrow>
                     (\<exists>resp db2. connect_via_nfc db' now2 nid2 u2 tk = (Inr resp, db2)
                        \<and> connections db2 = connections db' @ [cr_connection resp]
                        \<and> conn_user_id (cr_connection resp) = u2
                        \<and> conn_connected_user_id (cr_connection resp) = tok_user_id t))))
       \<and> (nfc_tokens db' \<noteq> nfc_tokens db \<longrightarrow> res = Inl EXPIRED_TOKEN \<or> (\<exists>resp. res = Inr resp))"
proof (cases "active_tokens_with tk db")
  case Nil
  then have "connect_via_nfc db now nid u tk = (Inl INVALID_TOKEN, db)"
    by (rule connect_invalid)
  with assms show ?thesis by auto
next
  case (Cons t rest)
  have later: "\<exists>resp db2. connect_via_nfc db now2 nid2 u2 tk = (Inr resp, db2)
                  \<and> connections db2 = connections db @ [cr_connection resp]
                  \<and> conn_user_id (cr_connection resp) = u2
                  \<and> conn_connected_user_id (cr_connection resp) = tok_user_id t"
    if "u2 \<noteq> tok_user_id t" "\<not> connected db u2 (tok_user_id t)" "now2 \<le> tok_expires_at t"
    for u2 now2 nid2
    using connect_ok [OF Cons that(1) that(3) that(2), of nid2] by simp
  consider (self) "u = tok_user_id t"
    | (expired) "u \<noteq> tok_user_id t" "tok_expires_at t < now"
    | (exists) "u \<noteq> tok_user_id t" "now \<le> tok_expires_at t" "connected db u (tok_user_id t)"
    | (ok) "u \<noteq> tok_user_id t" "now \<le> tok_expires_at t" "\<not> connected db u (tok_user_id t)"
    by linarith
  then show ?thesis
  proof cases
    case self
    with Cons have "connect_via_nfc db now nid u tk = (Inl SELF_CONNECTION, db)"
      by (rule connect_self)
    with assms have "res = Inl SELF_CONNECTION" "db' = db" by simp_all
    with Cons later show ?thesis by auto
  next
    case expired
    with Cons have "fst (connect_via_nfc db now nid u tk) = Inl EXPIRED_TOKEN"
      by (simp add: connect_expired)
    with assms show ?thesis by simp
  next
    case exists
    with Cons have "connect_via_nfc db now nid u tk = (Inl CONNECTION_EXISTS, db)"
      by (simp add: connect_exists)
    with assms have "res = Inl CONNECTION_EXISTS" "db' = db" by simp_all
    with Cons later show ?thesis by auto
  next
    case ok
    from connect_ok [OF Cons ok(1) ok(2) ok(3), of nid] assms
    obtain resp where "res = Inr resp" by simp
    then show ?thesis by simp
  qed
qed

theorem failed_redeem_keeps_token_witness:
  "connect_via_nfc
     (scenario_db\<lparr>connections := [\<lparr>conn_id = ''c0'', conn_user_id = ''U2'',
         conn_connected_user_id = ''U1'', conn_connection_type = ''work''\<rparr>]\<rparr>)
     100 ''c1'' ''U2'' ''T1''
     = (Inl CONNECTION_EXISTS,
        scenario_db\<lparr>connections := [\<lparr>conn_id = ''c0'', conn_user_id = ''U2'',
         conn_connected_user_id = ''U1'', conn_connection_type = ''work''\<rparr>]\<rparr>)
   \<and> active_tokens_with ''T1''
        (scenario_db\<lparr>connections := [\<lparr>conn_id = ''c0'', conn_user_id = ''U2'',
         conn_connected_user_id = ''U1'', conn_connection_type = ''work''\<rparr>]\<rparr>) = [scenario_token]
   \<and> ''U3'' \<noteq> tok_user_id scenario_token
   \<and> \<not> connected
        (scenario_db\<lparr>connections := [\<lparr>conn_id = ''c0'', conn_user_id = ''U2'',
         conn_connected_user_id = ''U1'', conn_connection_type = ''work''\<rparr>]\<rparr>)
        ''U3'' (tok_user_id scenario_token)
   \<and> 200 \<le> tok_expires_at scenario_token
   \<and> (\<exists>resp db2.
        connect_via_nfc
          (scenario_db\<lparr>connections := [\<lparr>conn_id = ''c0'', conn_user_id = ''U2'',
             conn_connected_user_id = ''U1'', conn_connection_type = ''work''\<rparr>]\<rparr>)
          200 ''c2'' ''U3'' ''T1'' = (Inr resp, db2)
        \<and> connections db2
            = [\<lparr>conn_id = ''c0'', conn_user_id = ''U2'',
                 conn_connected_user_id = ''U1'', conn_connection_type = ''work''\<rparr>,
               cr_connection resp]
        \<and> conn_user_id (cr_connection resp) = ''U3''
        \<and> conn_connected_user_id (cr_connection resp) = ''U1'')"
proof -
  let ?db = "scenario_db\<lparr>connections := [\<lparr>conn_id = ''c0'', conn_user_id = ''U2'',
         conn_connected_user_id = ''U1'', conn_connection_type = ''work''\<rparr>]\<rparr>"
  have run: "connect_via_nfc ?db 100 ''c1'' ''U2'' ''T1'' = (Inl CONNECTION_EXISTS, ?db)"
    by (simp add: connect_via_nfc_def crud_read_def scenario_defs Let_def)
  have h1: "active_tokens_with ''T1'' ?db = [scenario_token]"
    and h2: "''U3'' \<noteq> tok_user_id scenario_token"
    and h3: "\<not> connected ?db ''U3'' (tok_user_id scenario_token)"
    and h4: "200 \<le> tok_expires_at scenario_token"
    and owner: "tok_user_id scenario_token = ''U1''"
    and conns: "connections ?db = [\<lparr>conn_id = ''c0'', conn_user_id = ''U2'',
         conn_connected_user_id = ''U1'', conn_connection_type = ''work''\<rparr>]"
    by (simp_all add: scenario_defs)
  from failed_redeem_keeps_token [OF run] h1
  have "\<forall>u2 now2 nid2.
          u2 \<noteq> tok_user_id scenario_token \<and> \<not> connected ?db u2 (tok_user_id scenario_token)
            \<and> now2 \<le> tok_expires_at scenario_token \<longrightarrow>
          (\<exists>resp db2. connect_via_nfc ?db now2 nid2 u2 ''T1'' = (Inr resp, db2)
             \<and> connections db2 = connections ?db @ [cr_connection resp]
             \<and> conn_user_id (cr_connection resp) = u2
             \<and> conn_connected_user_id (cr_connection resp) = tok_user_id scenario_token)"
    by simp
  with h2 h3 h4
  have "\<exists>resp db2. connect_via_nfc ?db 200 ''c2'' ''U3'' ''T1'' = (Inr resp, db2)
             \<and> connections db2 = connections ?db @ [cr_connection resp]
             \<and> conn_user_id (cr_connection resp) = ''U3''
             \<and> conn_connected_user_id (cr_connection resp) = tok_user_id scenario_token"
    by blast
  with run h1 h2 h3 h4 show ?thesis
    by (simp add: owner conns)
qed

section \<open>Supersession\<close>

lemma invalidate_existing_map:
  "invalidate_existing ex table =
     map (\<lambda>r. if tok_id r \<in> tok_id ` set ex then r\<lparr>tok_is_active := False\<rparr> else r) table"
  by (induction ex arbitrary: table) (auto simp: nfc_update_is_active_def)

lemma invalidate_existing_clears:
  "filter (\<lambda>t. tok_user_id t = u \<and> tok_profile_type t = p \<and> tok_is_active t)
     (invalidate_existing
        (filter (\<lambda>t. tok_user_id t = u \<and> tok_profile_type t = p \<and> tok_is_active t) table) table) = []"
  by (auto simp: invalidate_existing_map filter_empty_conv)

lemma generate_overflow:
  assumes "profile_exists db u (profile_type_value pt)"
    and "compute_expires_at cfg now = None"
  shows "generate_nfc_token cfg db now draws nid u pt = (Inl TOKEN_GENERATION_FAILED, db)"
proof -
  have "crud_read (\<lambda>p. prof_user_id p = u \<and> prof_type p = profile_type_value pt) (profiles db) \<noteq> []"
    using assms(1) by (simp add: read_profiles_empty)
  then show ?thesis
    using assms(2) by (simp add: generate_nfc_token_def)
qed

text \<open>
  With a time-to-live of \<open>5 \<cdot> 10\<^sup>9\<close> minutes the expiry time lies past the year 9999: the
  call fails and the scenario's table is left as it was.
\<close>

lemma generate_overflow_scenario:
  "compute_expires_at \<lparr>NFC_TOKEN_EXPIRE_MINUTES = 5000000000\<rparr> 100 = None
   \<and> generate_nfc_token \<lparr>NFC_TOKEN_EXPIRE_MINUTES = 5000000000\<rparr> scenario_db 100 (\<lambda>i. i)
         ''t2'' ''U1'' Family
       = (Inl TOKEN_GENERATION_FAILED, scenario_db)"
proof -
  have none: "compute_expires_at \<lparr>NFC_TOKEN_EXPIRE_MINUTES = 5000000000\<rparr> 100 = None"
    by (simp add: compute_expires_at_def timedelta_minutes_def datetime_add_def
          datetime_min_def datetime_max_def)
  have "profile_exists scenario_db ''U1'' (profile_type_value Family)"
    by (simp add: scenario_defs)
  then show ?thesis
    using none by (simp add: generate_overflow)
qed

lemma generate_ok:
  assumes "profile_exists db u (profile_type_value pt)"
    and "compute_expires_at cfg now = Some e"
  shows "generate_nfc_token cfg db now draws nid u pt =
           (Inr \<lparr>token = generate_token 32 draws, profile_type = profile_type_value pt,
                  expires_at = e\<rparr>,
            db\<lparr>nfc_tokens :=
                 invalidate_existing
                   (filter (\<lambda>t. tok_user_id t = u \<and> tok_profile_type t = profile_type_value pt
                                \<and> tok_is_active t) (nfc_tokens db)) (nfc_tokens db)
                 @ [\<lparr>tok_id = nid, tok_user_id = u, tok_token = generate_token 32 draws,
                     tok_profile_type = profile_type_value pt, tok_is_active = True,
                     tok_expires_at = e\<rparr>]\<rparr>)"
proof -
  have found: "crud_read (\<lambda>p. prof_user_id p = u \<and> prof_type p = profile_type_value pt) (profiles db) \<noteq> []"
    using assms(1) by (simp add: read_profiles_empty)
  show ?thesis
    using found assms(2) unfolding generate_nfc_token_def Let_def crud_create_def
    by (simp add: crud_read_def)
qed

lemma generate_succeeds_iff:
  "(\<exists>resp db'. generate_nfc_token cfg db now draws nid u pt = (Inr resp, db'))
     = (profile_exists db u (profile_type_value pt) \<and> compute_expires_at cfg now \<noteq> None)"
proof (cases "profile_exists db u (profile_type_value pt)")
  case False
  then show ?thesis by (simp add: generate_no_profile)
next
  case True
  show ?thesis
  proof (cases "compute_expires_at cfg now")
    case None
    with True show ?thesis by (simp add: generate_overflow)
  next
    case (Some e)
    with True show ?thesis by (simp add: generate_ok)
  qed
qed

lemma generate_ok_active:
  assumes "profile_exists db u (profile_type_value pt)"
    and "compute_expires_at cfg now = Some e"
  shows "active_tokens_of u (profile_type_value pt) (snd (generate_nfc_token cfg db now draws nid u pt))
         = [\<lparr>tok_id = nid, tok_user_id = u, tok_token = generate_token 32 draws,
              tok_profile_type = profile_type_value pt, tok_is_active = True,
              tok_expires_at = e\<rparr>]"
  unfolding generate_ok [OF assms] active_tokens_of_def
  by (simp add: invalidate_existing_clears)

lemma generate_profile_exists:
  "profile_exists (snd (generate_nfc_token cfg db now draws nid u pt)) v p = profile_exists db v p"
  by (simp add: profile_exists_def generate_frame)

text \<open>A call either fails and writes nothing, or leaves exactly one active token of the pair.\<close>

lemma generate_cases:
  "snd (generate_nfc_token cfg db now draws nid u pt) = db
   \<or> length (active_tokens_of u (profile_type_value pt)
               (snd (generate_nfc_token cfg db now draws nid u pt))) = 1"
proof (cases "profile_exists db u (profile_type_value pt)")
  case False
  then show ?thesis by (simp add: generate_no_profile)
next
  case True
  show ?thesis
  proof (cases "compute_expires_at cfg now")
    case None
    with True show ?thesis by (simp add: generate_overflow)
  next
    case (Some e)
    with True show ?thesis by (simp add: generate_ok_active)
  qed
qed

lemma generate_at_most_one:
  assumes "length (active_tokens_of u (profile_type_value pt) db) \<le> 1"
  shows "length (active_tokens_of u (profile_type_value pt)
                   (snd (generate_nfc_token cfg db now draws nid u pt))) \<le> 1"
  using generate_cases [of cfg db now draws nid u pt] assms by auto

lemma generate_keeps_one:
  assumes "length (active_tokens_of u (profile_type_value pt) db) = 1"
  shows "length (active_tokens_of u (profile_type_value pt)
                   (snd (generate_nfc_token cfg db now draws nid u pt))) = 1"
  using generate_cases [of cfg db now draws nid u pt] assms by auto

lemma issue_calls_at_most_one:
  "length (active_tokens_of u (profile_type_value pt) db) \<le> 1 \<Longrightarrow>
   length (active_tokens_of u (profile_type_value pt) (issue_calls cfg db u pt calls)) \<le> 1"
proof (induction calls arbitrary: db)
  case Nil
  then show ?case by simp
next
  case (Cons call calls)
  obtain now draws nid where call: "call = (now, draws, nid)"
    by (cases call) auto
  have "length (active_tokens_of u (profile_type_value pt)
                  (snd (generate_nfc_token cfg db now draws nid u pt))) \<le> 1"
    using Cons.prems by (rule generate_at_most_one)
  then show ?case
    using call Cons.IH by simp
qed

lemma issue_calls_keeps_one:
  "length (active_tokens_of u (profile_type_value pt) db) = 1 \<Longrightarrow>
   length (active_tokens_of u (profile_type_value pt) (issue_calls cfg db u pt calls)) = 1"
proof (induction calls arbitrary: db)
  case Nil
  then show ?case by simp
next
  case (Cons call calls)
  obtain now draws nid where call: "call = (now, draws, nid)"
    by (cases call) auto
  have "length (active_tokens_of u (profile_type_value pt)
                  (snd (generate_nfc_token cfg db now draws nid u pt))) = 1"
    using Cons.prems by (rule generate_keeps_one)
  then show ?case
    using call Cons.IH by simp
qed

lemma issue_calls_exactly_one:
  assumes "profile_exists db u (profile_type_value pt)"
    and "\<exists>call \<in> set calls. compute_expires_at cfg (fst call) \<noteq> None"
  shows "length (active_tokens_of u (profile_type_value pt) (issue_calls cfg db u pt calls)) = 1"
  using assms
proof (induction calls arbitrary: db)
  case Nil
  then show ?case by simp
next
  case (Cons call calls)
  obtain now draws nid where call: "call = (now, draws, nid)"
    by (cases call) auto
  let ?db1 = "snd (generate_nfc_token cfg db now draws nid u pt)"
  have step: "issue_calls cfg db u pt (call # calls) = issue_calls cfg ?db1 u pt calls"
    by (simp add: call)
  show ?case
  proof (cases "compute_expires_at cfg now")
    case (Some e)
    have "length (active_tokens_of u (profile_type_value pt) ?db1) = 1"
      using Cons.prems(1) Some by (simp add: generate_ok_active)
    then show ?thesis
      unfolding step by (rule issue_calls_keeps_one)
  next
    case None
    have same: "?db1 = db"
      using Cons.prems(1) None by (simp add: generate_overflow)
    have "\<exists>c \<in> set calls. compute_expires_at cfg (fst c) \<noteq> None"
      using Cons.prems(2) None call by auto
    with Cons.prems(1) have "length (active_tokens_of u (profile_type_value pt)
                                (issue_calls cfg db u pt calls)) = 1"
      by (rule Cons.IH)
    then show ?thesis
      unfolding step same .
  qed
qed

section \<open>C2: at most one active token per owner and profile type\<close>

text \<open>
  Claim C2. Take a user and a profile type and run any sequence of sequential
  \<^verbatim>\<open>generate_nfc_token\<close> calls for them. If at most one token of the pair was active
  before, at most one is active afterwards. If at least one call of the sequence
  succeeds, that is, the profile exists and the call's expiry time is representable (see
  \<open>generate_succeeds_iff\<close>), then exactly one token of the pair is active afterwards,
  whatever the table held before; this holds in particular after \<open>N \<ge> 1\<close> calls each of
  which deactivates the active tokens of the pair and inserts its own. A call that fails
  writes nothing.
\<close>

theorem one_active_token_per_pair:
  "(length (active_tokens_of u (profile_type_value pt) db) \<le> 1 \<longrightarrow>
      length (active_tokens_of u (profile_type_value pt) (issue_calls cfg db u pt calls)) \<le> 1)
   \<and> (profile_exists db u (profile_type_value pt)
        \<and> (\<exists>call \<in> set calls. compute_expires_at cfg (fst call) \<noteq> None) \<longrightarrow>
      length (active_tokens_of u (profile_type_value pt) (issue_calls cfg db u pt calls)) = 1)"
  using issue_calls_at_most_one [of u pt db cfg calls] issue_calls_exactly_one [of db u pt calls cfg]
  by blast

theorem one_active_token_per_pair_witness:
  "length (active_tokens_of ''U1'' (profile_type_value Family) scenario_db) \<le> 1
   \<and> profile_exists scenario_db ''U1'' (profile_type_value Family)
   \<and> compute_expires_at \<lparr>NFC_TOKEN_EXPIRE_MINUTES = 60\<rparr> 100 = Some 3600000100
   \<and> compute_expires_at \<lparr>NFC_TOKEN_EXPIRE_MINUTES = 60\<rparr> 200 = Some 3600000200
   \<and> (\<exists>call \<in> set [(100::timestamp, \<lambda>i::nat. i, ''t2''), (200, \<lambda>i. i + 1, ''t3'')].
          compute_expires_at \<lparr>NFC_TOKEN_EXPIRE_MINUTES = 60\<rparr> (fst call) \<noteq> None)
   \<and> length (active_tokens_of ''U1'' (profile_type_value Family)
         (issue_calls \<lparr>NFC_TOKEN_EXPIRE_MINUTES = 60\<rparr> scenario_db ''U1'' Family
            [(100, \<lambda>i. i, ''t2''), (200, \<lambda>i. i + 1, ''t3'')])) = 1
   \<and> map tok_id (active_tokens_of ''U1'' (profile_type_value Family)
         (issue_calls \<lparr>NFC_TOKEN_EXPIRE_MINUTES = 60\<rparr> scenario_db ''U1'' Family
            [(100, \<lambda>i. i, ''t2''), (200, \<lambda>i. i + 1, ''t3'')])) = [''t3'']
   \<and> map tok_is_active (nfc_tokens
         (issue_calls \<lparr>NFC_TOKEN_EXPIRE_MINUTES = 60\<rparr> scenario_db ''U1'' Family
            [(100, \<lambda>i. i, ''t2''), (200, \<lambda>i. i + 1, ''t3'')])) = [False, False, True]"
proof -
  let ?cfg = "\<lparr>NFC_TOKEN_EXPIRE_MINUTES = 60\<rparr>"
  let ?calls = "[(100::int, \<lambda>i::nat. i, ''t2''), (200, \<lambda>i. i + 1, ''t3'')]"
  have h1: "length (active_tokens_of ''U1'' (profile_type_value Family) scenario_db) \<le> 1"
    by (simp add: active_tokens_of_def scenario_defs)
  have h2: "profile_exists scenario_db ''U1'' (profile_type_value Family)"
    by (simp add: scenario_defs)
  have e1: "compute_expires_at ?cfg 100 = Some 3600000100"
    and e2: "compute_expires_at ?cfg 200 = Some 3600000200"
    by (simp_all add: compute_expires_at_def timedelta_minutes_def datetime_add_def
          datetime_min_def datetime_max_def)
  have h3: "\<exists>call \<in> set ?calls. compute_expires_at ?cfg (fst call) \<noteq> None"
    using e1 by simp
  have tbl: "nfc_tokens (issue_calls ?cfg scenario_db ''U1'' Family ?calls)
      = [scenario_token\<lparr>tok_is_active := False\<rparr>,
         \<lparr>tok_id = ''t2'', tok_user_id = ''U1'', tok_token = generate_token 32 (\<lambda>i. i),
          tok_profile_type = ''family'', tok_is_active = False,
          tok_expires_at = 3600000100\<rparr>,
         \<lparr>tok_id = ''t3'', tok_user_id = ''U1'', tok_token = generate_token 32 (\<lambda>i. i + 1),
          tok_profile_type = ''family'', tok_is_active = True,
          tok_expires_at = 3600000200\<rparr>]"
    by (simp add: generate_nfc_token_def Let_def crud_read_def crud_create_def e1 e2
          nfc_update_is_active_def scenario_defs)
  from one_active_token_per_pair [of "''U1''" Family scenario_db ?cfg ?calls] h2 h3
  have one: "length (active_tokens_of ''U1'' (profile_type_value Family)
         (issue_calls ?cfg scenario_db ''U1'' Family ?calls)) = 1"
    by blast
  have act: "map tok_id (active_tokens_of ''U1'' (profile_type_value Family)
         (issue_calls ?cfg scenario_db ''U1'' Family ?calls)) = [''t3'']"
    unfolding active_tokens_of_def tbl by (simp add: scenario_token_def)
  have flags: "map tok_is_active (nfc_tokens (issue_calls ?cfg scenario_db ''U1'' Family ?calls))
       = [False, False, True]"
    unfolding tbl by simp
  show ?thesis
    using h1 h2 h3 e1 e2 one act flags by (intro conjI)
qed

end
